theory Spec2Isabelle
  imports Main "HOL-Library.Multiset"
begin

section \<open>Organization members page of the shortener dashboard\<close>

text \<open>
  A shallow embedding of \<^verbatim>\<open>OrganizationMembersPage\<close> (the second document of
  \<^verbatim>\<open>src/src/layouts/AuthenticatedLayout.tsx\<close>). Every \<^verbatim>\<open>useState\<close> cell of the
  component is a field of the record \<open>page_state\<close>; a handler is a function from the state
  to the next state. The two effects a handler has besides setting state, a call of the API
  client and a toast, are appended to the fields \<open>requests\<close> and \<open>toasts\<close>, in the order
  the handler performs them. The answer an awaited API call resolves to is a parameter of
  the handler.
\<close>

subsection \<open>Data model\<close>

text \<open>
  \<^verbatim>\<open>MemberRole\<close> is imported from \<^verbatim>\<open>../model/auth\<close>; its members are the keys of the
  exhaustive table \<^verbatim>\<open>ROLE_LABELS: Record<MemberRole, string>\<close>.
\<close>

datatype MemberRole =
    ORGANIZATION_OWNER
  | ORGANIZATION_ADMIN
  | ORGANIZATION_MANAGER
  | ORGANIZATION_MEMBERS_MANAGER
  | ORGANIZATION_URLS_MANAGER
  | ORGANIZATION_MEMBER

fun ROLE_LABELS :: "MemberRole \<Rightarrow> string" where
  "ROLE_LABELS ORGANIZATION_OWNER = ''Owner''"
| "ROLE_LABELS ORGANIZATION_ADMIN = ''Admin''"
| "ROLE_LABELS ORGANIZATION_MANAGER = ''Organization Manager''"
| "ROLE_LABELS ORGANIZATION_MEMBERS_MANAGER = ''Members Manager''"
| "ROLE_LABELS ORGANIZATION_URLS_MANAGER = ''URLs Manager''"
| "ROLE_LABELS ORGANIZATION_MEMBER = ''Member''"

text \<open>
  \<^verbatim>\<open>ServiceErrorType\<close> is imported from \<^verbatim>\<open>../model/common\<close>. The page names one of
  its members, \<^verbatim>\<open>ENTITY_ALREADY_EXISTS\<close>; every other tag is \<open>OTHER_ERROR\<close> with its name.
\<close>

datatype ServiceErrorType = ENTITY_ALREADY_EXISTS | OTHER_ERROR string

text \<open>
  The API client resolves to a payload or to an \<^verbatim>\<open>ErrorResponseElement\<close>, which is told
  apart by its \<^verbatim>\<open>errorType\<close> key.
\<close>

datatype 'a ApiResult = Payload 'a | ErrorResponseElement ServiceErrorType

record OrganizationMemberDto =
  id :: int
  fullName :: string
  email :: string
  pictureUrl :: "string option"
  roles :: "MemberRole list"
  allowedAllUrls :: bool
  allowedUrls :: "int list"

record ShortUrlDto =
  id :: int
  originalUrl :: string

record InviteMemberDto =
  firstname :: string
  lastname :: string
  email :: string
  allowedAllUrls :: bool
  allowedUrls :: "int list"
  roles :: "MemberRole list"

record UpdateMemberRolesDto =
  newRoles :: "MemberRole list"

record UpdateMemberUrlsDto =
  allowedAllUrls :: bool
  newUrlsIds :: "int list"

record MembersListDto =
  entries :: "OrganizationMemberDto list"
  total :: int

datatype OrderBy = ByName | ByEmail

datatype OrderDir = Asc | Desc

record MembersQuery =
  p :: nat
  q :: nat
  sb :: OrderBy
  dir :: OrderDir

text \<open>The calls of \<^verbatim>\<open>ApiClient\<close> the page makes, each with its arguments.\<close>

datatype request =
    GetOrganizationMembers string MembersQuery
  | UpdateMemberRoles string int UpdateMemberRolesDto
  | GetShortUrls string nat
  | UpdateMemberUrls string int UpdateMemberUrlsDto
  | InviteMember string InviteMemberDto
  | DeleteMember string int

text \<open>The two functions of \<^verbatim>\<open>useAppToast\<close> the page uses.\<close>

datatype toast = success string | error string

text \<open>An \<^verbatim>\<open>HTMLElement\<close> the page anchors a menu to is known by a number.\<close>

type_synonym HTMLElement = nat

text \<open>
  The issues of the validation library (zod) that \<^verbatim>\<open>inviteSchema\<close> can raise. The
  message of a \<open>custom\<close> issue is the one the schema gives; the others take the library's
  default message, which is not part of the repository.
\<close>

datatype ZodIssueCode = too_small | invalid_string | invalid_enum_value | custom

text \<open>
  What the component reads from outside itself: the slug in local storage, the user name of
  the access token (\<^verbatim>\<open>getAccessToken()?.username\<close>, which may be undefined), the
  predicate \<^verbatim>\<open>hasRole\<close> of \<^verbatim>\<open>../auth/auth\<close>, and from the validation library the
  e-mail test of \<^verbatim>\<open>z.string().email()\<close> and the default message of an issue code.
\<close>

record env =
  slug :: string
  currentEmail :: "string option"
  hasRole :: "MemberRole \<Rightarrow> bool"
  isEmail :: "string \<Rightarrow> bool"
  errorMap :: "ZodIssueCode \<Rightarrow> string"

record page_state =
  members :: "OrganizationMemberDto list"
  page :: nat
  perPage :: nat
  total :: int
  orderBy :: OrderBy
  orderDir :: OrderDir
  loading :: bool
  rolesAnchor :: "HTMLElement option"
  rolesRow :: "OrganizationMemberDto option"
  newRoles :: "MemberRole list"
  urlsOpen :: bool
  urlsMember :: "OrganizationMemberDto option"
  allowedAll :: bool
  selectedUrls :: "ShortUrlDto list"
  allUrls :: "ShortUrlDto list"
  urlsLoading :: bool
  inviteOpen :: bool
  inviteData :: InviteMemberDto
  inviteErrors :: "string \<rightharpoonup> string"
  removeAnchor :: "HTMLElement option"
  removeRow :: "OrganizationMemberDto option"
  requests :: "request list"
  toasts :: "toast list"

definition emptyInvite :: InviteMemberDto where
  "emptyInvite =
     \<lparr> firstname = '''', lastname = '''', InviteMemberDto.email = '''',
       InviteMemberDto.allowedAllUrls = True, InviteMemberDto.allowedUrls = [],
       InviteMemberDto.roles = [] \<rparr>"

text \<open>The initial values of the \<^verbatim>\<open>useState\<close> cells.\<close>

definition initial :: page_state where
  "initial =
     \<lparr> members = [], page = 0, perPage = 10, page_state.total = 0,
       orderBy = ByName, orderDir = Asc, loading = False,
       rolesAnchor = None, rolesRow = None, page_state.newRoles = [],
       urlsOpen = False, urlsMember = None, allowedAll = False,
       selectedUrls = [], allUrls = [], urlsLoading = False,
       inviteOpen = False, inviteData = emptyInvite, inviteErrors = Map.empty,
       removeAnchor = None, removeRow = None,
       requests = [], toasts = [] \<rparr>"

definition call :: "request \<Rightarrow> page_state \<Rightarrow> page_state" where
  "call r st = st\<lparr> requests := requests st @ [r] \<rparr>"

definition notify :: "toast \<Rightarrow> page_state \<Rightarrow> page_state" where
  "notify t st = st\<lparr> toasts := toasts st @ [t] \<rparr>"

definition canManageMembers :: "env \<Rightarrow> bool" where
  "canManageMembers e \<longleftrightarrow>
     hasRole e ORGANIZATION_OWNER \<or> hasRole e ORGANIZATION_ADMIN
     \<or> hasRole e ORGANIZATION_MEMBERS_MANAGER"

definition canManageUrls :: "env \<Rightarrow> bool" where
  "canManageUrls e \<longleftrightarrow>
     hasRole e ORGANIZATION_URLS_MANAGER \<or> hasRole e ORGANIZATION_ADMIN
     \<or> hasRole e ORGANIZATION_OWNER"

subsection \<open>Fetching the member list\<close>

text \<open>
  \<^verbatim>\<open>Array.prototype.sort\<close> with a comparison function: \<open>a\<close> is placed before \<open>b\<close> when
  \<open>cmp a b < 0\<close>, and elements that compare equal keep their order (the sort is stable
  since ECMAScript 2019). It is written as an insertion sort from the right end.
\<close>

fun sort_insert :: "('a \<Rightarrow> 'a \<Rightarrow> int) \<Rightarrow> 'a \<Rightarrow> 'a list \<Rightarrow> 'a list" where
  "sort_insert cmp x [] = [x]"
| "sort_insert cmp x (y # ys) =
     (if cmp x y > 0 then y # sort_insert cmp x ys else x # y # ys)"

fun array_sort :: "('a \<Rightarrow> 'a \<Rightarrow> int) \<Rightarrow> 'a list \<Rightarrow> 'a list" where
  "array_sort cmp [] = []"
| "array_sort cmp (x # xs) = sort_insert cmp x (array_sort cmp xs)"

definition isOwner :: "OrganizationMemberDto \<Rightarrow> bool" where
  "isOwner m \<longleftrightarrow> ORGANIZATION_OWNER \<in> set (OrganizationMemberDto.roles m)"

text \<open>The comparison function \<^verbatim>\<open>fetchMembers\<close> passes to \<^verbatim>\<open>sort\<close>.\<close>

definition ownerFirst :: "OrganizationMemberDto \<Rightarrow> OrganizationMemberDto \<Rightarrow> int" where
  "ownerFirst a b = (if isOwner b then 1 else 0) - (if isOwner a then 1 else 0)"

text \<open>
  \<^verbatim>\<open>fetchMembers\<close> up to its \<^verbatim>\<open>await\<close>: the loading flag is set and the request leaves
  with the page, page size and sort order of the render \<open>cl\<close> whose closure the function
  belongs to.
\<close>

definition membersQuery :: "page_state \<Rightarrow> MembersQuery" where
  "membersQuery cl = \<lparr> p = page cl, q = perPage cl, sb = orderBy cl, dir = orderDir cl \<rparr>"

definition fetchMembers_call :: "env \<Rightarrow> page_state \<Rightarrow> page_state \<Rightarrow> page_state" where
  "fetchMembers_call e cl st =
     call (GetOrganizationMembers (slug e) (membersQuery cl)) (st\<lparr> loading := True \<rparr>)"

text \<open>\<^verbatim>\<open>fetchMembers\<close> from the moment the request resolves to \<open>res\<close>.\<close>

definition fetchMembers_done :: "MembersListDto ApiResult \<Rightarrow> page_state \<Rightarrow> page_state" where
  "fetchMembers_done res st =
     (case res of
        Payload r \<Rightarrow>
          (let sorted = array_sort ownerFirst (entries r)
           in st\<lparr> members := sorted, page_state.total := MembersListDto.total r \<rparr>)
      | ErrorResponseElement t \<Rightarrow>
          notify (error ''Could not get members of the organization'') st)
     \<lparr> loading := False \<rparr>"

definition fetchMembers :: "env \<Rightarrow> MembersListDto ApiResult \<Rightarrow> page_state \<Rightarrow> page_state" where
  "fetchMembers e res st = fetchMembers_done res (fetchMembers_call e st st)"

subsection \<open>Sorting by a column\<close>

definition handleSort :: "OrderBy \<Rightarrow> page_state \<Rightarrow> page_state" where
  "handleSort property st =
     (let isAsc = (orderBy st = property \<and> orderDir st = Asc)
      in st\<lparr> orderDir := (if isAsc then Desc else Asc), orderBy := property, page := 0 \<rparr>)"

subsection \<open>Editing the roles of a member\<close>

definition isSelf :: "env \<Rightarrow> OrganizationMemberDto \<Rightarrow> bool" where
  "isSelf e m \<longleftrightarrow> Some (OrganizationMemberDto.email m) = currentEmail e"

definition handleRolesClick ::
  "env \<Rightarrow> HTMLElement \<Rightarrow> OrganizationMemberDto \<Rightarrow> page_state \<Rightarrow> page_state" where
  "handleRolesClick e currentTarget member st =
     (if \<not> canManageMembers e \<or> isSelf e member \<or> isOwner member then st
      else st\<lparr> rolesRow := Some member,
               page_state.newRoles :=
                 filter (\<lambda>r. r \<noteq> ORGANIZATION_OWNER) (OrganizationMemberDto.roles member),
               rolesAnchor := Some currentTarget \<rparr>)"

definition handleRolesClose :: "page_state \<Rightarrow> page_state" where
  "handleRolesClose st = st\<lparr> rolesAnchor := None, rolesRow := None \<rparr>"

definition handleRoleToggle :: "MemberRole \<Rightarrow> page_state \<Rightarrow> page_state" where
  "handleRoleToggle role st =
     (let prev = page_state.newRoles st
      in st\<lparr> page_state.newRoles :=
                 (if role \<in> set prev then filter (\<lambda>r. r \<noteq> role) prev else prev @ [role]) \<rparr>)"

text \<open>
  \<^verbatim>\<open>handleRolesUpdate\<close>, with the answer \<open>res\<close> of \<^verbatim>\<open>ApiClient.updateMemberRoles\<close>. On
  success the handler ends by calling \<^verbatim>\<open>fetchMembers\<close>, whose request leaves at once; its
  answer is handled by \<open>fetchMembers_done\<close>.
\<close>

definition handleRolesUpdate :: "env \<Rightarrow> string ApiResult \<Rightarrow> page_state \<Rightarrow> page_state" where
  "handleRolesUpdate e res st =
     (case rolesRow st of
        None \<Rightarrow> st
      | Some row \<Rightarrow>
          (let payload = \<lparr> UpdateMemberRolesDto.newRoles =
                 (if length (page_state.newRoles st) > 0 then page_state.newRoles st
                  else [ORGANIZATION_MEMBER]) \<rparr>;
               st1 = call (UpdateMemberRoles (slug e) (OrganizationMemberDto.id row) payload) st
           in case res of
                ErrorResponseElement t \<Rightarrow> notify (error ''Could not update member roles'') st1
              | Payload msg \<Rightarrow>
                  fetchMembers_call e st
                    (handleRolesClose
                      (notify (success ''Successfully updated member roles'') st1))))"

subsection \<open>Editing the URLs a member may use\<close>

text \<open>
  \<^verbatim>\<open>openUrlsDialog\<close>, with the answer \<open>urlsRes\<close> of \<^verbatim>\<open>ApiClient.getShortUrls\<close>, of whose
  payload the page reads the \<^verbatim>\<open>entries\<close> only.
\<close>

definition openUrlsDialog ::
  "env \<Rightarrow> OrganizationMemberDto \<Rightarrow> ShortUrlDto list ApiResult \<Rightarrow> page_state \<Rightarrow> page_state" where
  "openUrlsDialog e member urlsRes st =
     (if \<not> canManageUrls e \<or> isSelf e member \<or> isOwner member then st
      else
        (let st1 = call (GetShortUrls (slug e) 10000)
                     (st\<lparr> urlsOpen := True, urlsLoading := True, urlsMember := Some member \<rparr>);
             entries = (case urlsRes of Payload es \<Rightarrow> es | ErrorResponseElement t \<Rightarrow> []);
             st2 = (case urlsRes of
                      Payload es \<Rightarrow> st1\<lparr> allUrls := entries \<rparr>
                    | ErrorResponseElement t \<Rightarrow> st1)
         in st2\<lparr> allowedAll := OrganizationMemberDto.allowedAllUrls member,
                  selectedUrls :=
                    (if OrganizationMemberDto.allowedAllUrls member then []
                     else filter (\<lambda>u. ShortUrlDto.id u
                                        \<in> set (OrganizationMemberDto.allowedUrls member)) entries),
                  urlsLoading := False \<rparr>))"

definition handleUrlsSave :: "env \<Rightarrow> string ApiResult \<Rightarrow> page_state \<Rightarrow> page_state" where
  "handleUrlsSave e res st =
     (case urlsMember st of
        None \<Rightarrow> st
      | Some member \<Rightarrow>
          (let dto = \<lparr> UpdateMemberUrlsDto.allowedAllUrls = allowedAll st,
                       newUrlsIds = (if allowedAll st then []
                                     else map ShortUrlDto.id (selectedUrls st)) \<rparr>;
               st1 = call (UpdateMemberUrls (slug e) (OrganizationMemberDto.id member) dto) st
           in case res of
                ErrorResponseElement t \<Rightarrow>
                  notify (error ''Could not update allowed URLs of member'') st1
              | Payload msg \<Rightarrow>
                  fetchMembers_call e st
                    ((notify (success ''Successfully updated member allowed URLs'') st1)
                       \<lparr> urlsOpen := False \<rparr>)))"

subsection \<open>Inviting a member\<close>

text \<open>
  \<^verbatim>\<open>inviteSchema.safeParse\<close>. An issue is kept with the first element of its path, the only
  one \<^verbatim>\<open>handleInviteSubmit\<close> reads, and its message. The library parses the keys of the
  object in the order of the schema and adds the issues of each; an empty string and a
  string that is no e-mail address leave the object \<open>dirty\<close>, a role outside the
  \<^verbatim>\<open>z.enum\<close> list makes it \<open>aborted\<close>. The check given to \<^verbatim>\<open>refine\<close> runs unless the
  object is aborted. The fields \<^verbatim>\<open>allowedAllUrls\<close> and \<^verbatim>\<open>allowedUrls\<close> hold a boolean and
  numbers by their types and raise no issue of their own.
\<close>

datatype ParseStatus = valid | dirty | aborted

record ZodIssue =
  path0 :: string
  message :: string

definition inviteSchema_roles :: "MemberRole list" where
  "inviteSchema_roles =
     [ORGANIZATION_MEMBERS_MANAGER, ORGANIZATION_MANAGER,
      ORGANIZATION_URLS_MANAGER, ORGANIZATION_MEMBER]"

definition inviteSchema_object :: "env \<Rightarrow> InviteMemberDto \<Rightarrow> ParseStatus \<times> ZodIssue list" where
  "inviteSchema_object e data =
     (let issues =
            (if firstname data = [] then [\<lparr> path0 = ''firstname'', message = errorMap e too_small \<rparr>]
             else [])
          @ (if lastname data = [] then [\<lparr> path0 = ''lastname'', message = errorMap e too_small \<rparr>]
             else [])
          @ (if isEmail e (InviteMemberDto.email data) then []
             else [\<lparr> path0 = ''email'', message = errorMap e invalid_string \<rparr>])
          @ map (\<lambda>r. \<lparr> path0 = ''roles'', message = errorMap e invalid_enum_value \<rparr>)
              (filter (\<lambda>r. r \<notin> set inviteSchema_roles) (InviteMemberDto.roles data))
      in (if \<exists>r \<in> set (InviteMemberDto.roles data). r \<notin> set inviteSchema_roles then aborted
          else if issues = [] then valid else dirty,
          issues))"

definition inviteSchema_safeParse :: "env \<Rightarrow> InviteMemberDto \<Rightarrow> ZodIssue list" where
  "inviteSchema_safeParse e data =
     (case inviteSchema_object e data of
        (status, issues) \<Rightarrow>
          if status = aborted then issues
          else if InviteMemberDto.allowedAllUrls data
                  \<or> length (InviteMemberDto.allowedUrls data) > 0 then issues
          else issues @ [\<lparr> path0 = ''allowedUrls'',
                           message = ''Select at least one URL or Allow All URLs'' \<rparr>])"

text \<open>\<^verbatim>\<open>parsed.success\<close>: the parse succeeds when it raised no issue.\<close>

definition parsed_success :: "ZodIssue list \<Rightarrow> bool" where
  "parsed_success issues \<longleftrightarrow> issues = []"

definition handleInviteOpen :: "env \<Rightarrow> ShortUrlDto list ApiResult \<Rightarrow> page_state \<Rightarrow> page_state" where
  "handleInviteOpen e urlsRes st =
     (let st1 = call (GetShortUrls (slug e) 10000) (st\<lparr> inviteOpen := True \<rparr>)
      in case urlsRes of
           Payload es \<Rightarrow> st1\<lparr> allUrls := es \<rparr>
         | ErrorResponseElement t \<Rightarrow> st1)"

definition handleInviteClose :: "page_state \<Rightarrow> page_state" where
  "handleInviteClose st = st\<lparr> inviteOpen := False \<rparr>"

text \<open>
  \<^verbatim>\<open>handleInviteChange(field, value)\<close>: the field and the value of its type, one
  constructor for each key of \<^verbatim>\<open>InviteMemberDto\<close>.
\<close>

datatype InviteField =
    Firstname string
  | Lastname string
  | Email string
  | AllowedAllUrls bool
  | AllowedUrls "int list"
  | Roles "MemberRole list"

fun setInviteField :: "InviteField \<Rightarrow> InviteMemberDto \<Rightarrow> InviteMemberDto" where
  "setInviteField (Firstname v) prev = prev\<lparr> firstname := v \<rparr>"
| "setInviteField (Lastname v) prev = prev\<lparr> lastname := v \<rparr>"
| "setInviteField (Email v) prev = prev\<lparr> InviteMemberDto.email := v \<rparr>"
| "setInviteField (AllowedAllUrls v) prev = prev\<lparr> InviteMemberDto.allowedAllUrls := v \<rparr>"
| "setInviteField (AllowedUrls v) prev = prev\<lparr> InviteMemberDto.allowedUrls := v \<rparr>"
| "setInviteField (Roles v) prev = prev\<lparr> InviteMemberDto.roles := v \<rparr>"

definition handleInviteChange :: "InviteField \<Rightarrow> page_state \<Rightarrow> page_state" where
  "handleInviteChange fv st = st\<lparr> inviteData := setInviteField fv (inviteData st) \<rparr>"

text \<open>
  \<^verbatim>\<open>handleInviteSubmit\<close>, with the answer \<open>res\<close> of \<^verbatim>\<open>ApiClient.inviteMember\<close>. The
  payload is the form data as it stands, with the roles replaced by the base role when
  none is chosen.
\<close>

definition handleInviteSubmit :: "env \<Rightarrow> string ApiResult \<Rightarrow> page_state \<Rightarrow> page_state" where
  "handleInviteSubmit e res st =
     (let parsed = inviteSchema_safeParse e (inviteData st)
      in if \<not> parsed_success parsed then
           st\<lparr> inviteErrors :=
                  foldl (\<lambda>errs i. errs(path0 i \<mapsto> message i)) Map.empty parsed \<rparr>
         else
           (let dto = (inviteData st)\<lparr> InviteMemberDto.roles :=
                        (if length (InviteMemberDto.roles (inviteData st)) > 0
                         then InviteMemberDto.roles (inviteData st)
                         else [ORGANIZATION_MEMBER]) \<rparr>;
                st1 = call (InviteMember (slug e) dto) st
            in case res of
                 ErrorResponseElement t \<Rightarrow>
                   (if t = ENTITY_ALREADY_EXISTS
                    then notify (error ''Member with this email already exists'') st1
                    else notify (error ''Could not invite new member'') st1)
               | Payload msg \<Rightarrow>
                   (fetchMembers_call e st
                     (handleInviteClose
                       (notify (success ''Successfully invited new member'') st1)))
                   \<lparr> inviteData := emptyInvite, inviteErrors := Map.empty \<rparr>))"

subsection \<open>Removing a member\<close>

definition handleRemoveClick ::
  "HTMLElement \<Rightarrow> OrganizationMemberDto \<Rightarrow> page_state \<Rightarrow> page_state" where
  "handleRemoveClick currentTarget member st =
     st\<lparr> removeRow := Some member, removeAnchor := Some currentTarget \<rparr>"

definition handleRemove :: "env \<Rightarrow> string ApiResult \<Rightarrow> page_state \<Rightarrow> page_state" where
  "handleRemove e res st =
     (case removeRow st of
        None \<Rightarrow> st
      | Some row \<Rightarrow>
          (let st1 = call (DeleteMember (slug e) (OrganizationMemberDto.id row)) st
           in case res of
                ErrorResponseElement t \<Rightarrow> notify (error ''Could not remove member'') st1
              | Payload msg \<Rightarrow>
                  fetchMembers_call e st
                    ((notify (success ''Member was successfully removed'') st1)
                       \<lparr> removeAnchor := None, page := 0 \<rparr>)))"

subsection \<open>What is rendered\<close>

text \<open>
  The body of \<^verbatim>\<open>members.map\<close>: what a row of the table offers. The roles cell calls
  \<^verbatim>\<open>handleRolesClick\<close> and shows the expand icon when \<open>canOpenRolesMenu\<close> holds; the URLs
  cell is a link calling \<^verbatim>\<open>openUrlsDialog\<close> when \<open>canEditUrls\<close> holds and plain text
  otherwise; the remove button is drawn when \<open>removeButton\<close> holds.
\<close>

datatype UrlsText = AllUrls | CountUrls nat

record RowView =
  canOpenRolesMenu :: bool
  labels :: "string list"
  canEditUrls :: bool
  urlsText :: UrlsText
  removeButton :: bool

definition renderRow :: "env \<Rightarrow> OrganizationMemberDto \<Rightarrow> RowView" where
  "renderRow e m =
     (let isDisabled = (isSelf e m \<or> isOwner m)
      in \<lparr> canOpenRolesMenu = (canManageMembers e \<and> \<not> isDisabled),
           labels = (if OrganizationMemberDto.roles m = [ORGANIZATION_MEMBER] then [''Member'']
                     else map ROLE_LABELS (OrganizationMemberDto.roles m)),
           canEditUrls = (canManageUrls e \<and> \<not> isDisabled),
           urlsText = (if OrganizationMemberDto.allowedAllUrls m then AllUrls
                       else CountUrls (length (OrganizationMemberDto.allowedUrls m))),
           removeButton = (canManageMembers e \<and> \<not> isDisabled) \<rparr>)"

text \<open>The roles offered as checkboxes, in the roles menu and in the invite dialog.\<close>

definition menuRoles :: "MemberRole list" where
  "menuRoles =
     [ORGANIZATION_MEMBERS_MANAGER, ORGANIZATION_MANAGER, ORGANIZATION_URLS_MANAGER]"

definition canToggle :: "env \<Rightarrow> MemberRole \<Rightarrow> bool" where
  "canToggle e role \<longleftrightarrow>
     (hasRole e ORGANIZATION_OWNER \<or> hasRole e ORGANIZATION_ADMIN) \<or> hasRole e role"

text \<open>The \<^verbatim>\<open>disabled\<close> attribute of the Update Roles and of the Send Invite button.\<close>

definition updateRoles_disabled :: "page_state \<Rightarrow> bool" where
  "updateRoles_disabled st \<longleftrightarrow> length (page_state.newRoles st) = 0"

definition sendInvite_disabled :: "page_state \<Rightarrow> bool" where
  "sendInvite_disabled st \<longleftrightarrow>
     \<not> InviteMemberDto.allowedAllUrls (inviteData st)
     \<and> length (InviteMemberDto.allowedUrls (inviteData st)) = 0"

subsection \<open>The page as a transition system\<close>

text \<open>
  What can happen to the page: a member list request resolves, or the user acts on a
  control. An action that starts an API call carries the answer the call resolves to, and
  the handler runs to its end before the next event. A checkbox reports the negation of
  the value it shows.
\<close>

datatype event =
    MembersAnswer "MembersListDto ApiResult"
  | SortLabel OrderBy
  | PageChange nat
  | RowsPerPageChange nat
  | InviteMemberButton "ShortUrlDto list ApiResult"
  | RolesCell HTMLElement OrganizationMemberDto
  | UrlsLink OrganizationMemberDto "ShortUrlDto list ApiResult"
  | RemoveIcon HTMLElement OrganizationMemberDto
  | RoleCheckbox MemberRole
  | UpdateRolesButton "string ApiResult"
  | RolesMenuClose
  | AllowAllCheckbox
  | UrlsAutocomplete "ShortUrlDto list"
  | UrlsCancel
  | UrlsSaveButton "string ApiResult"
  | InviteFirstName string
  | InviteLastName string
  | InviteEmail string
  | InviteAllowAllCheckbox
  | InviteUrlsAutocomplete "ShortUrlDto list"
  | InviteRoleCheckbox MemberRole
  | InviteCancel
  | SendInviteButton "string ApiResult"
  | RemoveMenuClose
  | RemoveMemberItem "string ApiResult"

text \<open>
  The handler the JSX binds to each control. A control that is not rendered (the table
  while loading, a row that is not in the list, the content of a closed menu or dialog) or
  that is disabled leaves the state as it is.
\<close>

fun handle :: "env \<Rightarrow> event \<Rightarrow> page_state \<Rightarrow> page_state" where
  "handle e (MembersAnswer res) st = fetchMembers_done res st"
| "handle e (SortLabel property) st = (if loading st then st else handleSort property st)"
| "handle e (PageChange n) st = (if loading st then st else st\<lparr> page := n \<rparr>)"
| "handle e (RowsPerPageChange n) st =
     (if loading st \<or> n \<notin> set [5, 10, 25] then st else st\<lparr> perPage := n, page := 0 \<rparr>)"
| "handle e (InviteMemberButton urlsRes) st =
     (if canManageMembers e then handleInviteOpen e urlsRes st else st)"
| "handle e (RolesCell target m) st =
     (if \<not> loading st \<and> m \<in> set (members st) \<and> canOpenRolesMenu (renderRow e m)
      then handleRolesClick e target m st else st)"
| "handle e (UrlsLink m urlsRes) st =
     (if \<not> loading st \<and> m \<in> set (members st) \<and> canEditUrls (renderRow e m)
      then openUrlsDialog e m urlsRes st else st)"
| "handle e (RemoveIcon target m) st =
     (if \<not> loading st \<and> m \<in> set (members st) \<and> removeButton (renderRow e m)
      then handleRemoveClick target m st else st)"
| "handle e (RoleCheckbox role) st =
     (if rolesAnchor st \<noteq> None \<and> role \<in> set menuRoles \<and> canToggle e role
      then handleRoleToggle role st else st)"
| "handle e (UpdateRolesButton res) st =
     (if rolesAnchor st \<noteq> None \<and> \<not> updateRoles_disabled st
      then handleRolesUpdate e res st else st)"
| "handle e RolesMenuClose st = (if rolesAnchor st \<noteq> None then handleRolesClose st else st)"
| "handle e AllowAllCheckbox st =
     (if urlsOpen st then st\<lparr> allowedAll := \<not> allowedAll st \<rparr> else st)"
| "handle e (UrlsAutocomplete v) st =
     (if urlsOpen st \<and> \<not> allowedAll st \<and> \<not> urlsLoading st
         \<and> set v \<subseteq> set (allUrls st) \<union> set (selectedUrls st)
      then st\<lparr> selectedUrls := v \<rparr> else st)"
| "handle e UrlsCancel st = (if urlsOpen st then st\<lparr> urlsOpen := False \<rparr> else st)"
| "handle e (UrlsSaveButton res) st = (if urlsOpen st then handleUrlsSave e res st else st)"
| "handle e (InviteFirstName v) st =
     (if inviteOpen st then handleInviteChange (Firstname v) st else st)"
| "handle e (InviteLastName v) st =
     (if inviteOpen st then handleInviteChange (Lastname v) st else st)"
| "handle e (InviteEmail v) st =
     (if inviteOpen st then handleInviteChange (Email v) st else st)"
| "handle e InviteAllowAllCheckbox st =
     (if inviteOpen st
      then handleInviteChange
             (AllowedAllUrls (\<not> InviteMemberDto.allowedAllUrls (inviteData st))) st
      else st)"
| "handle e (InviteUrlsAutocomplete v) st =
     (if inviteOpen st \<and> \<not> InviteMemberDto.allowedAllUrls (inviteData st)
         \<and> set v \<subseteq> set (allUrls st)
      then handleInviteChange (AllowedUrls (map ShortUrlDto.id v)) st else st)"
| "handle e (InviteRoleCheckbox role) st =
     (if inviteOpen st \<and> role \<in> set menuRoles
      then handleInviteChange
             (Roles (if role \<notin> set (InviteMemberDto.roles (inviteData st))
                     then InviteMemberDto.roles (inviteData st) @ [role]
                     else filter (\<lambda>r. r \<noteq> role) (InviteMemberDto.roles (inviteData st)))) st
      else st)"
| "handle e InviteCancel st = (if inviteOpen st then handleInviteClose st else st)"
| "handle e (SendInviteButton res) st =
     (if inviteOpen st \<and> \<not> sendInvite_disabled st then handleInviteSubmit e res st else st)"
| "handle e RemoveMenuClose st =
     (if removeAnchor st \<noteq> None then st\<lparr> removeAnchor := None \<rparr> else st)"
| "handle e (RemoveMemberItem res) st =
     (if removeAnchor st \<noteq> None then handleRemove e res st else st)"

text \<open>
  The \<^verbatim>\<open>useEffect\<close> with the dependencies \<^verbatim>\<open>[page, perPage, orderBy, orderDir]\<close>: after
  an event that changed one of them the page calls \<^verbatim>\<open>fetchMembers\<close> anew, as it does once
  when it is mounted.
\<close>

definition dispatch :: "env \<Rightarrow> event \<Rightarrow> page_state \<Rightarrow> page_state" where
  "dispatch e ev st =
     (let st' = handle e ev st
      in if membersQuery st' \<noteq> membersQuery st then fetchMembers_call e st' st' else st')"

definition mounted :: "env \<Rightarrow> page_state" where
  "mounted e = fetchMembers_call e initial initial"

fun run :: "env \<Rightarrow> event list \<Rightarrow> page_state \<Rightarrow> page_state" where
  "run e [] st = st"
| "run e (ev # evs) st = run e evs (dispatch e ev st)"

subsection \<open>Reading the log of requests\<close>

text \<open>The requests a handler added, given the state before it and the state after it.\<close>

definition new_requests :: "page_state \<Rightarrow> page_state \<Rightarrow> request list" where
  "new_requests st st' = drop (length (requests st)) (requests st')"

text \<open>The role list a request carries, when it is a role update or an invite.\<close>

fun role_payload :: "request \<Rightarrow> MemberRole list option" where
  "role_payload (UpdateMemberRoles s i dto) = Some (UpdateMemberRolesDto.newRoles dto)"
| "role_payload (InviteMember s dto) = Some (InviteMemberDto.roles dto)"
| "role_payload r = None"

fun role_payloads :: "request list \<Rightarrow> MemberRole list list" where
  "role_payloads [] = []"
| "role_payloads (r # rs) =
     (case role_payload r of None \<Rightarrow> role_payloads rs | Some x \<Rightarrow> x # role_payloads rs)"


text \<open>The role list a request asks the member to be given, when it is a role update.\<close>

fun update_payload :: "request \<Rightarrow> MemberRole list option" where
  "update_payload (UpdateMemberRoles s i dto) = Some (UpdateMemberRolesDto.newRoles dto)"
| "update_payload r = None"

text \<open>
  A list is \<open>owner_split\<close> when no row without the owner role stands before a row with it.
\<close>

fun owner_split :: "OrganizationMemberDto list \<Rightarrow> bool" where
  "owner_split [] = True"
| "owner_split (m # ms) = ((isOwner m \<or> (\<forall>x \<in> set ms. \<not> isOwner x)) \<and> owner_split ms)"

subsection \<open>Sample inputs\<close>

definition admin_env :: env where
  "admin_env =
     \<lparr> slug = ''acme'', currentEmail = Some ''me@acme.io'',
       hasRole = (\<lambda>r. r = ORGANIZATION_ADMIN),
       isEmail = (\<lambda>s. CHR ''@'' \<in> set s),
       errorMap = (\<lambda>c. ''Invalid'') \<rparr>"

definition alice :: OrganizationMemberDto where
  "alice =
     \<lparr> OrganizationMemberDto.id = 1, fullName = ''Alice'',
       OrganizationMemberDto.email = ''alice@acme.io'', pictureUrl = None,
       OrganizationMemberDto.roles = [ORGANIZATION_MEMBER],
       OrganizationMemberDto.allowedAllUrls = False,
       OrganizationMemberDto.allowedUrls = [7] \<rparr>"

definition olga :: OrganizationMemberDto where
  "olga =
     \<lparr> OrganizationMemberDto.id = 2, fullName = ''Olga'',
       OrganizationMemberDto.email = ''olga@acme.io'', pictureUrl = None,
       OrganizationMemberDto.roles = [ORGANIZATION_OWNER],
       OrganizationMemberDto.allowedAllUrls = True,
       OrganizationMemberDto.allowedUrls = [] \<rparr>"

definition ann_invite :: InviteMemberDto where
  "ann_invite =
     \<lparr> firstname = ''Ann'', lastname = ''Lee'', InviteMemberDto.email = ''ann@acme.io'',
       InviteMemberDto.allowedAllUrls = True, InviteMemberDto.allowedUrls = [],
       InviteMemberDto.roles = [] \<rparr>"

definition url7 :: ShortUrlDto where
  "url7 = \<lparr> ShortUrlDto.id = 7, originalUrl = ''https://example.org/a'' \<rparr>"

text \<open>
  Two sessions of an administrator: one changes the roles of a member, the other fills
  the invite form after having chosen a URL and ticked Allow All URLs again.
\<close>

definition edit_roles_trace :: "event list" where
  "edit_roles_trace =
     [MembersAnswer (Payload \<lparr> entries = [alice, olga], MembersListDto.total = 2 \<rparr>),
      RolesCell 3 alice,
      RoleCheckbox ORGANIZATION_MANAGER,
      UpdateRolesButton (Payload ''ok'')]"

definition invite_trace :: "event list" where
  "invite_trace =
     [MembersAnswer (Payload \<lparr> entries = [alice, olga], MembersListDto.total = 2 \<rparr>),
      InviteMemberButton (Payload [url7]),
      InviteAllowAllCheckbox,
      InviteUrlsAutocomplete [url7],
      InviteAllowAllCheckbox,
      InviteFirstName ''Ann'',
      InviteLastName ''Lee'',
      InviteEmail ''ann@acme.io'',
      SendInviteButton (Payload ''ok'')]"


section \<open>Properties\<close>

subsection \<open>The owner rows come first\<close>

lemma mset_sort_insert: "mset (sort_insert cmp x ys) = add_mset x (mset ys)"
  by (induction ys) auto

lemma mset_array_sort: "mset (array_sort cmp xs) = mset xs"
  by (induction xs) (auto simp: mset_sort_insert)

lemma set_sort_insert: "set (sort_insert cmp x ys) = insert x (set ys)"
  by (induction ys) auto

lemma owner_split_insert:
  "owner_split ys \<Longrightarrow> owner_split (sort_insert ownerFirst x ys)"
proof (induction ys)
  case Nil
  then show ?case by simp
next
  case (Cons y ys)
  show ?case
  proof (cases "ownerFirst x y > 0")
    case True
    then have "isOwner y" "\<not> isOwner x"
      by (auto simp: ownerFirst_def split: if_splits)
    with Cons True show ?thesis
      by (simp add: set_sort_insert)
  next
    case False
    then have "isOwner x \<or> \<not> isOwner y"
      by (auto simp: ownerFirst_def split: if_splits)
    with Cons.prems False show ?thesis
      by auto
  qed
qed

lemma owner_split_array_sort: "owner_split (array_sort ownerFirst xs)"
  by (induction xs) (simp_all add: owner_split_insert)

lemma owner_split_nth:
  "owner_split ms \<Longrightarrow> i < length ms \<Longrightarrow> j < length ms \<Longrightarrow>
   isOwner (ms ! i) \<Longrightarrow> \<not> isOwner (ms ! j) \<Longrightarrow> i < j"
proof (induction ms arbitrary: i j)
  case Nil
  then show ?case by simp
next
  case (Cons m ms)
  show ?case
  proof (cases i)
    case 0
    with Cons.prems show ?thesis by (cases j) auto
  next
    case (Suc i')
    show ?thesis
    proof (cases j)
      case 0
      with Cons.prems Suc show ?thesis by auto
    next
      case (Suc j')
      with Cons \<open>i = Suc i'\<close> show ?thesis by auto
    qed
  qed
qed

text \<open>
  C1. Whatever sort field and direction the state holds, after \<^verbatim>\<open>fetchMembers\<close> has
  received a member list the stored rows are a rearrangement of the received entries in
  which every row whose roles include the owner role stands before every row whose roles
  do not.
\<close>

theorem fetchMembers_owner_first:
  "mset (members (fetchMembers e (Payload r) st)) = mset (entries r) \<and>
   (\<forall>i j. i < length (members (fetchMembers e (Payload r) st)) \<longrightarrow>
          j < length (members (fetchMembers e (Payload r) st)) \<longrightarrow>
          ORGANIZATION_OWNER
            \<in> set (OrganizationMemberDto.roles (members (fetchMembers e (Payload r) st) ! i)) \<longrightarrow>
          ORGANIZATION_OWNER
            \<notin> set (OrganizationMemberDto.roles (members (fetchMembers e (Payload r) st) ! j)) \<longrightarrow>
          i < j)"
proof -
  have eq: "members (fetchMembers e (Payload r) st) = array_sort ownerFirst (entries r)"
    by (simp add: fetchMembers_def fetchMembers_done_def Let_def)
  show ?thesis
    unfolding eq
    using owner_split_nth [OF owner_split_array_sort, of _ "entries r"]
    by (simp add: mset_array_sort isOwner_def)
qed


theorem fetchMembers_owner_first_witness:
  "0 < length (members (fetchMembers admin_env (Payload \<lparr> entries = [alice, olga], MembersListDto.total = 2 \<rparr>) initial)) \<and>
   1 < length (members (fetchMembers admin_env (Payload \<lparr> entries = [alice, olga], MembersListDto.total = 2 \<rparr>) initial)) \<and>
   ORGANIZATION_OWNER \<in> set (OrganizationMemberDto.roles
     (members (fetchMembers admin_env (Payload \<lparr> entries = [alice, olga], MembersListDto.total = 2 \<rparr>) initial) ! 0)) \<and>
   ORGANIZATION_OWNER \<notin> set (OrganizationMemberDto.roles
     (members (fetchMembers admin_env (Payload \<lparr> entries = [alice, olga], MembersListDto.total = 2 \<rparr>) initial) ! 1)) \<and>
   (0::nat) < 1"
proof -
  let ?ms = "members (fetchMembers admin_env
                (Payload \<lparr> entries = [alice, olga], MembersListDto.total = 2 \<rparr>) initial)"
  have ms: "?ms = [olga, alice]"
    by (simp add: fetchMembers_def fetchMembers_done_def ownerFirst_def isOwner_def
        alice_def olga_def)
  have h0: "0 < length ?ms" and h1: "1 < length ?ms"
    and h2: "ORGANIZATION_OWNER \<in> set (OrganizationMemberDto.roles (?ms ! 0))"
    and h3: "ORGANIZATION_OWNER \<notin> set (OrganizationMemberDto.roles (?ms ! 1))"
    unfolding ms by (simp_all add: alice_def olga_def)
  have "(0::nat) < 1"
    using fetchMembers_owner_first [THEN conjunct2, rule_format, OF h0 h1 h2 h3] .
  with h0 h1 h2 h3 show ?thesis by blast
qed

subsection \<open>Clicking a sort label\<close>

text \<open>
  C10. When the clicked column is the sort column and the direction is ascending,
  \<^verbatim>\<open>handleSort\<close> makes the direction descending; in every other case it makes the
  direction ascending; in all cases the clicked column becomes (or stays) the sort column
  and the page index becomes 0.
\<close>

theorem handleSort_direction:
  "(orderBy st = property \<and> orderDir st = Asc \<longrightarrow>
      orderDir (handleSort property st) = Desc) \<and>
   (\<not> (orderBy st = property \<and> orderDir st = Asc) \<longrightarrow>
      orderDir (handleSort property st) = Asc) \<and>
   orderBy (handleSort property st) = property \<and>
   page (handleSort property st) = 0"
  by (simp add: handleSort_def Let_def)

theorem handleSort_direction_witness:
  "orderBy initial = ByName \<and> orderDir initial = Asc \<and>
   orderDir (handleSort ByName initial) = Desc \<and>
   \<not> (orderBy initial = ByEmail \<and> orderDir initial = Asc) \<and>
   orderDir (handleSort ByEmail initial) = Asc"
proof -
  have h: "orderBy initial = ByName \<and> orderDir initial = Asc"
    and k: "\<not> (orderBy initial = ByEmail \<and> orderDir initial = Asc)"
    by (simp_all add: initial_def)
  from h handleSort_direction [of initial ByName]
  have a: "orderDir (handleSort ByName initial) = Desc" by blast
  from k handleSort_direction [of initial ByEmail]
  have b: "orderDir (handleSort ByEmail initial) = Asc" by blast
  from h k a b show ?thesis by blast
qed

subsection \<open>Rows of the acting user and of the owner\<close>

text \<open>
  C5. For a member whose e-mail is that of the acting user, or whose roles include the
  owner role, \<^verbatim>\<open>handleRolesClick\<close> and \<^verbatim>\<open>openUrlsDialog\<close> return with the state as it
  was (nothing is opened, no request leaves), the row is rendered without the clickable
  roles cell and without the URLs link, and an event on either control changes nothing.
\<close>

theorem self_or_owner_row_not_editable:
  "Some (OrganizationMemberDto.email m) = currentEmail e
     \<or> ORGANIZATION_OWNER \<in> set (OrganizationMemberDto.roles m) \<Longrightarrow>
   handleRolesClick e target m st = st \<and>
   openUrlsDialog e m urlsRes st = st \<and>
   \<not> canOpenRolesMenu (renderRow e m) \<and>
   \<not> canEditUrls (renderRow e m) \<and>
   handle e (RolesCell target m) st = st \<and>
   handle e (UrlsLink m urlsRes) st = st"
  by (auto simp: handleRolesClick_def openUrlsDialog_def renderRow_def isSelf_def isOwner_def)

theorem self_or_owner_row_not_editable_witness:
  "(Some (OrganizationMemberDto.email olga) = currentEmail admin_env
     \<or> ORGANIZATION_OWNER \<in> set (OrganizationMemberDto.roles olga)) \<and>
   handleRolesClick admin_env 0 olga initial = initial \<and>
   openUrlsDialog admin_env olga (Payload [url7]) initial = initial \<and>
   \<not> canOpenRolesMenu (renderRow admin_env olga) \<and>
   \<not> canEditUrls (renderRow admin_env olga)"
proof -
  have h: "Some (OrganizationMemberDto.email olga) = currentEmail admin_env
     \<or> ORGANIZATION_OWNER \<in> set (OrganizationMemberDto.roles olga)"
    by (simp add: olga_def)
  from self_or_owner_row_not_editable [OF h, of 0 initial "Payload [url7]"] h
  show ?thesis by blast
qed

subsection \<open>What the update handlers do, as equations\<close>

lemma requests_fetchMembers_call:
  "requests (fetchMembers_call e cl st)
     = requests st @ [GetOrganizationMembers (slug e) (membersQuery cl)]"
  by (simp add: fetchMembers_call_def call_def)

lemma handleRolesUpdate_Payload:
  "rolesRow st = Some row \<Longrightarrow>
   handleRolesUpdate e (Payload msg) st =
     st\<lparr> loading := True, rolesAnchor := None, rolesRow := None,
         requests := requests st @
           [UpdateMemberRoles (slug e) (OrganizationMemberDto.id row)
              \<lparr> UpdateMemberRolesDto.newRoles =
                  (if page_state.newRoles st = [] then [ORGANIZATION_MEMBER]
                   else page_state.newRoles st) \<rparr>,
            GetOrganizationMembers (slug e) (membersQuery st)],
         toasts := toasts st @ [success ''Successfully updated member roles''] \<rparr>"
  by (simp add: handleRolesUpdate_def Let_def fetchMembers_call_def call_def notify_def
      handleRolesClose_def)

lemma handleRolesUpdate_Error:
  "rolesRow st = Some row \<Longrightarrow>
   handleRolesUpdate e (ErrorResponseElement t) st =
     st\<lparr> requests := requests st @
           [UpdateMemberRoles (slug e) (OrganizationMemberDto.id row)
              \<lparr> UpdateMemberRolesDto.newRoles =
                  (if page_state.newRoles st = [] then [ORGANIZATION_MEMBER]
                   else page_state.newRoles st) \<rparr>],
         toasts := toasts st @ [error ''Could not update member roles''] \<rparr>"
  by (simp add: handleRolesUpdate_def Let_def call_def notify_def)

lemma handleUrlsSave_Payload:
  "urlsMember st = Some member \<Longrightarrow>
   handleUrlsSave e (Payload msg) st =
     st\<lparr> loading := True, urlsOpen := False,
         requests := requests st @
           [UpdateMemberUrls (slug e) (OrganizationMemberDto.id member)
              \<lparr> UpdateMemberUrlsDto.allowedAllUrls = allowedAll st,
                newUrlsIds = (if allowedAll st then []
                              else map ShortUrlDto.id (selectedUrls st)) \<rparr>,
            GetOrganizationMembers (slug e) (membersQuery st)],
         toasts := toasts st @ [success ''Successfully updated member allowed URLs''] \<rparr>"
  by (simp add: handleUrlsSave_def Let_def fetchMembers_call_def call_def notify_def)

lemma handleUrlsSave_Error:
  "urlsMember st = Some member \<Longrightarrow>
   handleUrlsSave e (ErrorResponseElement t) st =
     st\<lparr> requests := requests st @
           [UpdateMemberUrls (slug e) (OrganizationMemberDto.id member)
              \<lparr> UpdateMemberUrlsDto.allowedAllUrls = allowedAll st,
                newUrlsIds = (if allowedAll st then []
                              else map ShortUrlDto.id (selectedUrls st)) \<rparr>],
         toasts := toasts st @ [error ''Could not update allowed URLs of member''] \<rparr>"
  by (simp add: handleUrlsSave_def Let_def call_def notify_def)


subsection \<open>After a role update or a URL access update\<close>

lemma new_requests_append [simp]:
  "requests st' = requests st @ new \<Longrightarrow> new_requests st st' = new"
  by (simp add: new_requests_def)





subsection \<open>The invite form\<close>

lemma safeParse_ok_iff:
  "parsed_success (inviteSchema_safeParse e d) \<longleftrightarrow>
     firstname d \<noteq> [] \<and> lastname d \<noteq> [] \<and> isEmail e (InviteMemberDto.email d)
     \<and> set (InviteMemberDto.roles d) \<subseteq> set inviteSchema_roles
     \<and> (InviteMemberDto.allowedAllUrls d \<or> InviteMemberDto.allowedUrls d \<noteq> [])"
  by (auto simp: parsed_success_def inviteSchema_safeParse_def inviteSchema_object_def
      Let_def filter_empty_conv)

lemma handleInviteSubmit_rejected:
  "\<not> parsed_success (inviteSchema_safeParse e (inviteData st)) \<Longrightarrow>
   handleInviteSubmit e res st =
     st\<lparr> inviteErrors :=
           foldl (\<lambda>errs i. errs(path0 i \<mapsto> message i)) Map.empty
             (inviteSchema_safeParse e (inviteData st)) \<rparr>"
  by (simp add: handleInviteSubmit_def Let_def)

lemma handleInviteSubmit_Error:
  "parsed_success (inviteSchema_safeParse e (inviteData st)) \<Longrightarrow>
   handleInviteSubmit e (ErrorResponseElement t) st =
     st\<lparr> requests := requests st @
           [InviteMember (slug e)
              ((inviteData st)\<lparr> InviteMemberDto.roles :=
                 (if InviteMemberDto.roles (inviteData st) = [] then [ORGANIZATION_MEMBER]
                  else InviteMemberDto.roles (inviteData st)) \<rparr>)],
         toasts := toasts st @
           [error (if t = ENTITY_ALREADY_EXISTS then ''Member with this email already exists''
                   else ''Could not invite new member'')] \<rparr>"
  by (simp add: handleInviteSubmit_def Let_def call_def notify_def)

lemma handleInviteSubmit_Payload:
  "parsed_success (inviteSchema_safeParse e (inviteData st)) \<Longrightarrow>
   handleInviteSubmit e (Payload msg) st =
     st\<lparr> loading := True, inviteOpen := False, inviteData := emptyInvite,
         inviteErrors := Map.empty,
         requests := requests st @
           [InviteMember (slug e)
              ((inviteData st)\<lparr> InviteMemberDto.roles :=
                 (if InviteMemberDto.roles (inviteData st) = [] then [ORGANIZATION_MEMBER]
                  else InviteMemberDto.roles (inviteData st)) \<rparr>),
            GetOrganizationMembers (slug e) (membersQuery st)],
         toasts := toasts st @ [success ''Successfully invited new member''] \<rparr>"
  by (simp add: handleInviteSubmit_def Let_def call_def notify_def fetchMembers_call_def
      handleInviteClose_def)

text \<open>
  C8. When the invite request has been sent and fails, the toast is the error
  \<open>Member with this email already exists\<close> if the tag is \<^verbatim>\<open>ENTITY_ALREADY_EXISTS\<close> and
  the error \<open>Could not invite new member\<close> for every other tag; the two messages differ.
\<close>

theorem invite_error_message:
  "parsed_success (inviteSchema_safeParse e (inviteData st)) \<Longrightarrow>
   (t = ENTITY_ALREADY_EXISTS \<longrightarrow>
      toasts (handleInviteSubmit e (ErrorResponseElement t) st)
        = toasts st @ [error ''Member with this email already exists'']) \<and>
   (t \<noteq> ENTITY_ALREADY_EXISTS \<longrightarrow>
      toasts (handleInviteSubmit e (ErrorResponseElement t) st)
        = toasts st @ [error ''Could not invite new member'']) \<and>
   ''Member with this email already exists'' \<noteq> ''Could not invite new member''"
  by (simp add: handleInviteSubmit_Error)

lemma ann_invite_parses:
  "parsed_success (inviteSchema_safeParse admin_env
     (inviteData (initial\<lparr> inviteOpen := True, inviteData := ann_invite \<rparr>)))"
  by (simp add: safeParse_ok_iff ann_invite_def admin_env_def)

theorem invite_error_message_witness:
  "parsed_success (inviteSchema_safeParse admin_env
     (inviteData (initial\<lparr> inviteOpen := True, inviteData := ann_invite \<rparr>))) \<and>
   toasts (handleInviteSubmit admin_env (ErrorResponseElement ENTITY_ALREADY_EXISTS)
            (initial\<lparr> inviteOpen := True, inviteData := ann_invite \<rparr>))
     = toasts (initial\<lparr> inviteOpen := True, inviteData := ann_invite \<rparr>)
         @ [error ''Member with this email already exists''] \<and>
   OTHER_ERROR ''INTERNAL'' \<noteq> ENTITY_ALREADY_EXISTS \<and>
   toasts (handleInviteSubmit admin_env (ErrorResponseElement (OTHER_ERROR ''INTERNAL''))
            (initial\<lparr> inviteOpen := True, inviteData := ann_invite \<rparr>))
     = toasts (initial\<lparr> inviteOpen := True, inviteData := ann_invite \<rparr>)
         @ [error ''Could not invite new member'']"
proof -
  have d: "OTHER_ERROR ''INTERNAL'' \<noteq> ENTITY_ALREADY_EXISTS" by simp
  from invite_error_message [OF ann_invite_parses, of ENTITY_ALREADY_EXISTS]
       invite_error_message [OF ann_invite_parses, of "OTHER_ERROR ''INTERNAL''"]
       d ann_invite_parses
  show ?thesis by blast
qed

lemma foldl_errs_append:
  "foldl (\<lambda>errs i. errs(path0 i \<mapsto> message i)) m (xs @ [x])
     = (foldl (\<lambda>errs i. errs(path0 i \<mapsto> message i)) m xs)(path0 x \<mapsto> message x)"
  by simp

text \<open>
  What \<^verbatim>\<open>handleInviteSubmit\<close> does when it is called on form data with
  \<^verbatim>\<open>allowedAllUrls = false\<close> and no allowed URL: it finds the data invalid, sends no
  request and shows no toast, and when the roles are among those the schema lists the
  error map it stores has the schema's message under the key \<open>allowedUrls\<close>. The page
  itself never makes this call, see below.
\<close>

lemma handleInviteSubmit_without_urls:
  "\<not> InviteMemberDto.allowedAllUrls (inviteData st) \<Longrightarrow>
   InviteMemberDto.allowedUrls (inviteData st) = [] \<Longrightarrow>
   \<not> parsed_success (inviteSchema_safeParse e (inviteData st)) \<and>
   requests (handleInviteSubmit e res st) = requests st \<and>
   toasts (handleInviteSubmit e res st) = toasts st \<and>
   (set (InviteMemberDto.roles (inviteData st)) \<subseteq> set inviteSchema_roles \<longrightarrow>
      inviteErrors (handleInviteSubmit e res st) ''allowedUrls''
        = Some ''Select at least one URL or Allow All URLs'')"
proof -
  assume a: "\<not> InviteMemberDto.allowedAllUrls (inviteData st)"
    and b: "InviteMemberDto.allowedUrls (inviteData st) = []"
  have rej: "\<not> parsed_success (inviteSchema_safeParse e (inviteData st))"
    using a b by (simp add: safeParse_ok_iff)
  have field: "inviteErrors (handleInviteSubmit e res st) ''allowedUrls''
        = Some ''Select at least one URL or Allow All URLs''"
    if r: "set (InviteMemberDto.roles (inviteData st)) \<subseteq> set inviteSchema_roles"
  proof -
    have "\<not> (\<exists>r \<in> set (InviteMemberDto.roles (inviteData st)). r \<notin> set inviteSchema_roles)"
      using r by auto
    then have "inviteSchema_safeParse e (inviteData st)
        = snd (inviteSchema_object e (inviteData st))
          @ [\<lparr> path0 = ''allowedUrls'',
               message = ''Select at least one URL or Allow All URLs'' \<rparr>]"
      using a b by (simp add: inviteSchema_safeParse_def inviteSchema_object_def Let_def)
    then show ?thesis
      by (simp add: handleInviteSubmit_rejected [OF rej])
  qed
  from rej field show ?thesis
    by (simp add: handleInviteSubmit_rejected)
qed

subsection \<open>Invariants of the page\<close>

text \<open>
  Every event keeps the owner role out of the selection of the roles menu, and every
  request an event adds carries a non-empty role list that, for a role update, is drawn
  from the selection or is the base role.
\<close>

lemmas handler_defs =
  handleSort_def handleInviteOpen_def handleRolesClick_def openUrlsDialog_def
  handleRemoveClick_def handleRoleToggle_def handleRolesUpdate_def handleRolesClose_def
  handleUrlsSave_def handleInviteChange_def handleInviteClose_def handleInviteSubmit_def
  handleRemove_def fetchMembers_done_def fetchMembers_call_def call_def notify_def

lemma newRoles_handle:
  "ORGANIZATION_OWNER \<notin> set (page_state.newRoles st) \<Longrightarrow>
   ORGANIZATION_OWNER \<notin> set (page_state.newRoles (handle e ev st))"
  by (cases ev)
     (auto simp: handler_defs Let_def menuRoles_def split: option.splits ApiResult.splits)

lemma newRoles_dispatch:
  "ORGANIZATION_OWNER \<notin> set (page_state.newRoles st) \<Longrightarrow>
   ORGANIZATION_OWNER \<notin> set (page_state.newRoles (dispatch e ev st))"
  using newRoles_handle [of st e ev]
  by (simp add: dispatch_def Let_def fetchMembers_call_def call_def)

lemma requests_handle:
  "\<exists>new. requests (handle e ev st) = requests st @ new \<and>
     (\<forall>r \<in> set new. \<forall>rs. role_payload r = Some rs \<longrightarrow> rs \<noteq> []) \<and>
     (\<forall>r \<in> set new. \<forall>rs. update_payload r = Some rs \<longrightarrow>
        set rs \<subseteq> insert ORGANIZATION_MEMBER (set (page_state.newRoles st)))"
  by (cases ev)
     (auto simp: handler_defs Let_def split: option.splits ApiResult.splits)


lemma requests_dispatch:
  "\<exists>new. requests (dispatch e ev st) = requests st @ new \<and>
     (\<forall>r \<in> set new. \<forall>rs. role_payload r = Some rs \<longrightarrow> rs \<noteq> []) \<and>
     (\<forall>r \<in> set new. \<forall>rs. update_payload r = Some rs \<longrightarrow>
        set rs \<subseteq> insert ORGANIZATION_MEMBER (set (page_state.newRoles st)))"
proof -
  obtain new where n: "requests (handle e ev st) = requests st @ new"
    and a: "\<forall>r \<in> set new. \<forall>rs. role_payload r = Some rs \<longrightarrow> rs \<noteq> []"
    and b: "\<forall>r \<in> set new. \<forall>rs. update_payload r = Some rs \<longrightarrow>
        set rs \<subseteq> insert ORGANIZATION_MEMBER (set (page_state.newRoles st))"
    using requests_handle [of e ev st] by blast
  show ?thesis
  proof (cases "membersQuery (handle e ev st) \<noteq> membersQuery st")
    case False
    with n a b show ?thesis by (simp add: dispatch_def Let_def)
  next
    case True
    let ?g = "GetOrganizationMembers (slug e) (membersQuery (handle e ev st))"
    have "requests (dispatch e ev st) = requests st @ (new @ [?g])"
      using True n by (simp add: dispatch_def Let_def fetchMembers_call_def call_def)
    moreover have "\<forall>r \<in> set (new @ [?g]). \<forall>rs. role_payload r = Some rs \<longrightarrow> rs \<noteq> []"
      using a by simp
    moreover have "\<forall>r \<in> set (new @ [?g]). \<forall>rs. update_payload r = Some rs \<longrightarrow>
        set rs \<subseteq> insert ORGANIZATION_MEMBER (set (page_state.newRoles st))"
      using b by simp
    ultimately show ?thesis by blast
  qed
qed

lemma run_invariant:
  "ORGANIZATION_OWNER \<notin> set (page_state.newRoles st) \<Longrightarrow>
   \<forall>r \<in> set (requests st). \<forall>rs. role_payload r = Some rs \<longrightarrow> rs \<noteq> [] \<Longrightarrow>
   \<forall>r \<in> set (requests st). \<forall>rs. update_payload r = Some rs \<longrightarrow> ORGANIZATION_OWNER \<notin> set rs \<Longrightarrow>
   (\<forall>r \<in> set (requests (run e evs st)). \<forall>rs. role_payload r = Some rs \<longrightarrow> rs \<noteq> []) \<and>
   (\<forall>r \<in> set (requests (run e evs st)). \<forall>rs. update_payload r = Some rs \<longrightarrow>
        ORGANIZATION_OWNER \<notin> set rs)"
proof (induction evs arbitrary: st)
  case Nil
  then show ?case by simp
next
  case (Cons ev evs)
  obtain new where n: "requests (dispatch e ev st) = requests st @ new"
    and a: "\<forall>r \<in> set new. \<forall>rs. role_payload r = Some rs \<longrightarrow> rs \<noteq> []"
    and b: "\<forall>r \<in> set new. \<forall>rs. update_payload r = Some rs \<longrightarrow>
        set rs \<subseteq> insert ORGANIZATION_MEMBER (set (page_state.newRoles st))"
    using requests_dispatch [of e ev st] by blast
  have 1: "ORGANIZATION_OWNER \<notin> set (page_state.newRoles (dispatch e ev st))"
    using Cons.prems(1) by (rule newRoles_dispatch)
  have 2: "\<forall>r \<in> set (requests (dispatch e ev st)). \<forall>rs. role_payload r = Some rs \<longrightarrow> rs \<noteq> []"
    using Cons.prems(2) a by (auto simp: n)
  have 3: "\<forall>r \<in> set (requests (dispatch e ev st)). \<forall>rs. update_payload r = Some rs \<longrightarrow>
        ORGANIZATION_OWNER \<notin> set rs"
    using Cons.prems(1,3) b by (auto simp: n)
  from Cons.IH [OF 1 2 3] show ?case by simp
qed

lemma mounted_invariant:
  "ORGANIZATION_OWNER \<notin> set (page_state.newRoles (mounted e))"
  "\<forall>r \<in> set (requests (mounted e)). \<forall>rs. role_payload r = Some rs \<longrightarrow> rs \<noteq> []"
  "\<forall>r \<in> set (requests (mounted e)). \<forall>rs. update_payload r = Some rs \<longrightarrow>
     ORGANIZATION_OWNER \<notin> set rs"
  by (simp_all add: mounted_def fetchMembers_call_def call_def initial_def)

text \<open>
  The roles of the invite form come from its three checkboxes, so in every state the page
  reaches they are among the roles \<^verbatim>\<open>inviteSchema\<close> lists.
\<close>

lemma invite_roles_handle:
  "set (InviteMemberDto.roles (inviteData st)) \<subseteq> set menuRoles \<Longrightarrow>
   set (InviteMemberDto.roles (inviteData (handle e ev st))) \<subseteq> set menuRoles"
  by (cases ev)
     (auto simp: handler_defs Let_def emptyInvite_def split: option.splits ApiResult.splits)

lemma invite_roles_dispatch:
  "set (InviteMemberDto.roles (inviteData st)) \<subseteq> set menuRoles \<Longrightarrow>
   set (InviteMemberDto.roles (inviteData (dispatch e ev st))) \<subseteq> set menuRoles"
  using invite_roles_handle [of st e ev]
  by (simp add: dispatch_def Let_def fetchMembers_call_def call_def)

lemma invite_roles_run:
  "set (InviteMemberDto.roles (inviteData st)) \<subseteq> set menuRoles \<Longrightarrow>
   set (InviteMemberDto.roles (inviteData (run e evs st))) \<subseteq> set menuRoles"
  by (induction evs arbitrary: st) (simp_all add: invite_roles_dispatch)

lemma invite_roles_in_schema:
  "set (InviteMemberDto.roles (inviteData (run e evs (mounted e)))) \<subseteq> set inviteSchema_roles"
proof -
  have "set (InviteMemberDto.roles (inviteData (mounted e))) \<subseteq> set menuRoles"
    by (simp add: mounted_def fetchMembers_call_def call_def initial_def emptyInvite_def)
  from invite_roles_run [OF this, of e evs]
  show ?thesis by (auto simp: menuRoles_def inviteSchema_roles_def)
qed

lemma set_role_payloads:
  "set (role_payloads rs) = {x. \<exists>r \<in> set rs. role_payload r = Some x}"
  by (induction rs) (auto split: option.splits)

subsection \<open>The role list of a request\<close>

lemma handleRolesUpdate_requests:
  "rolesRow st = Some row \<Longrightarrow>
   role_payloads (new_requests st (handleRolesUpdate e res st))
     = [if page_state.newRoles st = [] then [ORGANIZATION_MEMBER] else page_state.newRoles st]"
  by (cases res) (simp_all add: handleRolesUpdate_Payload handleRolesUpdate_Error)

lemma handleInviteSubmit_requests:
  "parsed_success (inviteSchema_safeParse e (inviteData st)) \<Longrightarrow>
   role_payloads (new_requests st (handleInviteSubmit e res st))
     = [if InviteMemberDto.roles (inviteData st) = [] then [ORGANIZATION_MEMBER]
        else InviteMemberDto.roles (inviteData st)]"
  by (cases res) (simp_all add: handleInviteSubmit_Payload handleInviteSubmit_Error)

text \<open>
  C3. The role-update request that \<^verbatim>\<open>handleRolesUpdate\<close> sends and the invite request that
  \<^verbatim>\<open>handleInviteSubmit\<close> sends each carry a non-empty role list: the base member role
  alone when the selected list is empty, the selected list otherwise. In every run of the
  page from its mounting, no role update and no invite in the log has an empty role list.
\<close>

theorem role_payload_never_empty:
  "(rolesRow st = Some row \<longrightarrow>
      [] \<notin> set (role_payloads (new_requests st (handleRolesUpdate e res st))) \<and>
      (page_state.newRoles st = [] \<longrightarrow>
         role_payloads (new_requests st (handleRolesUpdate e res st)) = [[ORGANIZATION_MEMBER]]) \<and>
      (page_state.newRoles st \<noteq> [] \<longrightarrow>
         role_payloads (new_requests st (handleRolesUpdate e res st)) = [page_state.newRoles st])) \<and>
   (parsed_success (inviteSchema_safeParse e (inviteData st)) \<longrightarrow>
      [] \<notin> set (role_payloads (new_requests st (handleInviteSubmit e res' st))) \<and>
      (InviteMemberDto.roles (inviteData st) = [] \<longrightarrow>
         role_payloads (new_requests st (handleInviteSubmit e res' st)) = [[ORGANIZATION_MEMBER]]) \<and>
      (InviteMemberDto.roles (inviteData st) \<noteq> [] \<longrightarrow>
         role_payloads (new_requests st (handleInviteSubmit e res' st))
           = [InviteMemberDto.roles (inviteData st)])) \<and>
   [] \<notin> set (role_payloads (requests (run e evs (mounted e))))"
proof (intro conjI impI)
  show "[] \<notin> set (role_payloads (requests (run e evs (mounted e))))"
    using run_invariant [OF mounted_invariant, of e evs]
    by (auto simp: set_role_payloads)
qed (simp_all add: handleRolesUpdate_requests handleInviteSubmit_requests)

subsection \<open>The two sample sessions\<close>

lemmas sample_defs = admin_env_def alice_def olga_def url7_def ann_invite_def initial_def
  emptyInvite_def

lemmas eval_defs = dispatch_def mounted_def handler_defs renderRow_def canManageMembers_def
  canManageUrls_def isSelf_def isOwner_def canToggle_def menuRoles_def updateRoles_disabled_def
  sendInvite_disabled_def membersQuery_def ownerFirst_def Let_def
  inviteSchema_safeParse_def inviteSchema_object_def inviteSchema_roles_def parsed_success_def


lemma invite_trace_requests:
  "requests (run admin_env invite_trace (mounted admin_env)) =
     [GetOrganizationMembers ''acme'' \<lparr> p = 0, q = 10, sb = ByName, dir = Asc \<rparr>,
      GetShortUrls ''acme'' 10000,
      InviteMember ''acme''
        \<lparr> firstname = ''Ann'', lastname = ''Lee'', InviteMemberDto.email = ''ann@acme.io'',
          InviteMemberDto.allowedAllUrls = True, InviteMemberDto.allowedUrls = [7],
          InviteMemberDto.roles = [ORGANIZATION_MEMBER] \<rparr>,
      GetOrganizationMembers ''acme'' \<lparr> p = 0, q = 10, sb = ByName, dir = Asc \<rparr>]"
  by (simp add: invite_trace_def eval_defs sample_defs)

lemma empty_selection_state:
  "rolesRow (initial\<lparr> rolesRow := Some alice \<rparr>) = Some alice"
  "page_state.newRoles (initial\<lparr> rolesRow := Some alice \<rparr>) = []"
  by (simp_all add: initial_def)

lemma manager_selection_state:
  "rolesRow (handleRoleToggle ORGANIZATION_MANAGER (handleRolesClick admin_env 3 alice initial))
     = Some alice"
  "page_state.newRoles
     (handleRoleToggle ORGANIZATION_MANAGER (handleRolesClick admin_env 3 alice initial))
     = [ORGANIZATION_MEMBER, ORGANIZATION_MANAGER]"
  by (simp_all add: handleRoleToggle_def handleRolesClick_def canManageMembers_def isSelf_def
      isOwner_def Let_def admin_env_def alice_def initial_def)

lemma manager_invite_parses:
  "parsed_success (inviteSchema_safeParse admin_env
     (inviteData (initial\<lparr> inviteData :=
        ann_invite\<lparr> InviteMemberDto.roles := [ORGANIZATION_MANAGER] \<rparr> \<rparr>)))"
  by (simp add: safeParse_ok_iff ann_invite_def admin_env_def inviteSchema_roles_def)

theorem role_payload_never_empty_witness:
  "rolesRow (initial\<lparr> rolesRow := Some alice \<rparr>) = Some alice \<and>
   page_state.newRoles (initial\<lparr> rolesRow := Some alice \<rparr>) = [] \<and>
   role_payloads (new_requests (initial\<lparr> rolesRow := Some alice \<rparr>)
       (handleRolesUpdate admin_env (Payload ''ok'') (initial\<lparr> rolesRow := Some alice \<rparr>)))
     = [[ORGANIZATION_MEMBER]] \<and>
   page_state.newRoles
       (handleRoleToggle ORGANIZATION_MANAGER (handleRolesClick admin_env 3 alice initial))
     \<noteq> [] \<and>
   role_payloads (new_requests
       (handleRoleToggle ORGANIZATION_MANAGER (handleRolesClick admin_env 3 alice initial))
       (handleRolesUpdate admin_env (Payload ''ok'')
         (handleRoleToggle ORGANIZATION_MANAGER (handleRolesClick admin_env 3 alice initial))))
     = [[ORGANIZATION_MEMBER, ORGANIZATION_MANAGER]] \<and>
   parsed_success (inviteSchema_safeParse admin_env
     (inviteData (initial\<lparr> inviteOpen := True, inviteData := ann_invite \<rparr>))) \<and>
   InviteMemberDto.roles (inviteData (initial\<lparr> inviteOpen := True, inviteData := ann_invite \<rparr>))
     = [] \<and>
   role_payloads (new_requests (initial\<lparr> inviteOpen := True, inviteData := ann_invite \<rparr>)
       (handleInviteSubmit admin_env (Payload ''ok'')
         (initial\<lparr> inviteOpen := True, inviteData := ann_invite \<rparr>)))
     = [[ORGANIZATION_MEMBER]] \<and>
   InviteMemberDto.roles (inviteData (initial\<lparr> inviteData :=
        ann_invite\<lparr> InviteMemberDto.roles := [ORGANIZATION_MANAGER] \<rparr> \<rparr>)) \<noteq> [] \<and>
   role_payloads (new_requests
       (initial\<lparr> inviteData := ann_invite\<lparr> InviteMemberDto.roles := [ORGANIZATION_MANAGER] \<rparr> \<rparr>)
       (handleInviteSubmit admin_env (Payload ''ok'')
         (initial\<lparr> inviteData :=
            ann_invite\<lparr> InviteMemberDto.roles := [ORGANIZATION_MANAGER] \<rparr> \<rparr>)))
     = [[ORGANIZATION_MANAGER]] \<and>
   [] \<notin> set (role_payloads (requests (run admin_env edit_roles_trace (mounted admin_env))))"
proof -
  let ?s1 = "initial\<lparr> rolesRow := Some alice \<rparr>"
  let ?s2 = "handleRoleToggle ORGANIZATION_MANAGER (handleRolesClick admin_env 3 alice initial)"
  let ?s3 = "initial\<lparr> inviteOpen := True, inviteData := ann_invite \<rparr>"
  let ?s4 = "initial\<lparr> inviteData :=
               ann_invite\<lparr> InviteMemberDto.roles := [ORGANIZATION_MANAGER] \<rparr> \<rparr>"
  have r3: "InviteMemberDto.roles (inviteData ?s3) = []"
    by (simp add: ann_invite_def)
  have r4: "InviteMemberDto.roles (inviteData ?s4) = [ORGANIZATION_MANAGER]"
    by simp
  have n2: "page_state.newRoles ?s2 \<noteq> []"
    by (simp add: manager_selection_state(2))
  have n4: "InviteMemberDto.roles (inviteData ?s4) \<noteq> []"
    by simp
  note t1 = role_payload_never_empty
              [of ?s1 alice admin_env "Payload ''ok''" "Payload ''ok''" edit_roles_trace]
  note t2 = role_payload_never_empty
              [of ?s2 alice admin_env "Payload ''ok''" "Payload ''ok''" edit_roles_trace]
  note t3 = role_payload_never_empty
              [of ?s3 alice admin_env "Payload ''ok''" "Payload ''ok''" edit_roles_trace]
  note t4 = role_payload_never_empty
              [of ?s4 alice admin_env "Payload ''ok''" "Payload ''ok''" edit_roles_trace]
  have a: "role_payloads (new_requests ?s1 (handleRolesUpdate admin_env (Payload ''ok'') ?s1))
             = [[ORGANIZATION_MEMBER]]"
    using t1 empty_selection_state by blast
  have b: "role_payloads (new_requests ?s2 (handleRolesUpdate admin_env (Payload ''ok'') ?s2))
             = [page_state.newRoles ?s2]"
    using t2 manager_selection_state(1) n2 by blast
  have c: "role_payloads (new_requests ?s3 (handleInviteSubmit admin_env (Payload ''ok'') ?s3))
             = [[ORGANIZATION_MEMBER]]"
    using t3 ann_invite_parses r3 by blast
  have d: "role_payloads (new_requests ?s4 (handleInviteSubmit admin_env (Payload ''ok'') ?s4))
             = [InviteMemberDto.roles (inviteData ?s4)]"
    using t4 manager_invite_parses n4 by blast
  have g: "[] \<notin> set (role_payloads (requests (run admin_env edit_roles_trace (mounted admin_env))))"
    using t1 by blast
  show ?thesis
    using a b c d g empty_selection_state manager_selection_state(2) n2 ann_invite_parses r3 r4
    by (simp del: role_payloads.simps)
qed

subsection \<open>The owner role and the roles menu\<close>




subsection \<open>The Update Roles button\<close>

text \<open>
  C9. The Update Roles button is disabled exactly when the selected role list is empty; a
  click on it in such a state leaves the page as it is (no handler runs, no request
  leaves), and with the menu open and a non-empty selection the click runs
  \<^verbatim>\<open>handleRolesUpdate\<close>.
\<close>

theorem update_roles_disabled_iff_empty:
  "(updateRoles_disabled st \<longleftrightarrow> page_state.newRoles st = []) \<and>
   (page_state.newRoles st = [] \<longrightarrow> dispatch e (UpdateRolesButton res) st = st) \<and>
   (page_state.newRoles st \<noteq> [] \<and> rolesAnchor st \<noteq> None \<longrightarrow>
      handle e (UpdateRolesButton res) st = handleRolesUpdate e res st)"
  by (simp add: updateRoles_disabled_def dispatch_def)

lemma menu_open_state:
  "page_state.newRoles (handleRolesClick admin_env 3 alice initial) \<noteq> []"
  "rolesAnchor (handleRolesClick admin_env 3 alice initial) \<noteq> None"
  by (simp_all add: handleRolesClick_def canManageMembers_def isSelf_def isOwner_def
      admin_env_def alice_def)

theorem update_roles_disabled_iff_empty_witness:
  "page_state.newRoles initial = [] \<and>
   updateRoles_disabled initial \<and>
   dispatch admin_env (UpdateRolesButton (Payload ''ok'')) initial = initial \<and>
   page_state.newRoles (handleRolesClick admin_env 3 alice initial) \<noteq> [] \<and>
   rolesAnchor (handleRolesClick admin_env 3 alice initial) \<noteq> None \<and>
   \<not> updateRoles_disabled (handleRolesClick admin_env 3 alice initial) \<and>
   handle admin_env (UpdateRolesButton (Payload ''ok'')) (handleRolesClick admin_env 3 alice initial)
     = handleRolesUpdate admin_env (Payload ''ok'') (handleRolesClick admin_env 3 alice initial)"
proof -
  have e: "page_state.newRoles initial = []"
    by (simp add: initial_def)
  note t0 = update_roles_disabled_iff_empty [of initial admin_env "Payload ''ok''"]
  note t1 = update_roles_disabled_iff_empty
              [of "handleRolesClick admin_env 3 alice initial" admin_env "Payload ''ok''"]
  from t0 t1 e menu_open_state show ?thesis by blast
qed

subsection \<open>Sending an invite without a URL\<close>






text \<open>
  More is true: an error under the key \<open>allowedUrls\<close> is stored in no run of the page,
  since \<^verbatim>\<open>handleInviteSubmit\<close> runs only when the button is enabled, and then the
  refinement of the schema is satisfied.
\<close>

lemma foldl_errs_other_key:
  "\<forall>i \<in> set xs. path0 i \<noteq> k \<Longrightarrow>
   foldl (\<lambda>errs i. errs(path0 i \<mapsto> message i)) m xs k = m k"
  by (induction xs arbitrary: m) auto

lemma safeParse_no_allowedUrls_issue:
  "InviteMemberDto.allowedAllUrls d \<or> InviteMemberDto.allowedUrls d \<noteq> [] \<Longrightarrow>
   \<forall>i \<in> set (inviteSchema_safeParse e d). path0 i \<noteq> ''allowedUrls''"
  by (auto simp: inviteSchema_safeParse_def inviteSchema_object_def Let_def)

lemma allowedUrls_error_handleInviteSubmit:
  "\<not> sendInvite_disabled st \<Longrightarrow> inviteErrors st ''allowedUrls'' = None \<Longrightarrow>
   inviteErrors (handleInviteSubmit e res st) ''allowedUrls'' = None"
proof -
  assume en: "\<not> sendInvite_disabled st" and inv: "inviteErrors st ''allowedUrls'' = None"
  from en have ok: "InviteMemberDto.allowedAllUrls (inviteData st)
      \<or> InviteMemberDto.allowedUrls (inviteData st) \<noteq> []"
    by (simp add: sendInvite_disabled_def)
  show ?thesis
  proof (cases "parsed_success (inviteSchema_safeParse e (inviteData st))")
    case True
    with inv show ?thesis
      by (cases res) (simp_all add: handleInviteSubmit_Payload handleInviteSubmit_Error)
  next
    case False
    from foldl_errs_other_key [OF safeParse_no_allowedUrls_issue [OF ok, of e], of Map.empty]
    show ?thesis
      by (simp add: handleInviteSubmit_rejected [OF False])
  qed
qed

lemma allowedUrls_error_handle:
  "inviteErrors st ''allowedUrls'' = None \<Longrightarrow>
   inviteErrors (handle e ev st) ''allowedUrls'' = None"
proof (cases ev)
  case (SendInviteButton res)
  then show "inviteErrors st ''allowedUrls'' = None \<Longrightarrow> ?thesis"
    by (simp add: allowedUrls_error_handleInviteSubmit)
qed (auto simp: handleSort_def handleInviteOpen_def handleRolesClick_def openUrlsDialog_def
      handleRemoveClick_def handleRoleToggle_def handleRolesUpdate_def handleRolesClose_def
      handleUrlsSave_def handleInviteChange_def handleInviteClose_def
      handleRemove_def fetchMembers_done_def fetchMembers_call_def call_def notify_def
      Let_def split: option.splits ApiResult.splits)

lemma allowedUrls_error_run:
  "inviteErrors st ''allowedUrls'' = None \<Longrightarrow>
   inviteErrors (run e evs st) ''allowedUrls'' = None"
proof (induction evs arbitrary: st)
  case Nil
  then show ?case by simp
next
  case (Cons ev evs)
  have "inviteErrors (dispatch e ev st) ''allowedUrls'' = None"
    using allowedUrls_error_handle [OF Cons.prems, of e ev]
    by (simp add: dispatch_def Let_def fetchMembers_call_def call_def)
  from Cons.IH [OF this] show ?case by simp
qed

lemma allowedUrls_error_never_stored:
  "inviteErrors (run e evs (mounted e)) ''allowedUrls'' = None"
  by (rule allowedUrls_error_run)
     (simp add: mounted_def fetchMembers_call_def call_def initial_def)

subsection \<open>Allow All URLs and the list of allowed URLs\<close>

text \<open>
  With the flag set, the URL-access request carries an empty list, and the URLs dialog
  opens with an empty selection for a member who has the flag.
\<close>

lemma urls_save_list_empty_under_allow_all:
  "urlsMember st = Some member \<Longrightarrow> allowedAll st \<Longrightarrow>
   hd (new_requests st (handleUrlsSave e res st))
     = UpdateMemberUrls (slug e) (OrganizationMemberDto.id member)
         \<lparr> UpdateMemberUrlsDto.allowedAllUrls = True, newUrlsIds = [] \<rparr>"
  by (cases res) (simp_all add: handleUrlsSave_Payload handleUrlsSave_Error)

lemma urls_dialog_selection_empty_under_allow_all:
  "canManageUrls e \<Longrightarrow> \<not> isSelf e member \<Longrightarrow> \<not> isOwner member \<Longrightarrow>
   OrganizationMemberDto.allowedAllUrls member \<Longrightarrow>
   urlsOpen (openUrlsDialog e member urlsRes st) \<and>
   allowedAll (openUrlsDialog e member urlsRes st) \<and>
   selectedUrls (openUrlsDialog e member urlsRes st) = []"
  by (cases urlsRes) (simp_all add: openUrlsDialog_def Let_def call_def)

text \<open>
  C6. The invite request does not follow: \<^verbatim>\<open>handleInviteSubmit\<close> sends the form data as
  it stands. In the second sample session the administrator unticks Allow All URLs, chooses
  URL 7, ticks Allow All URLs again and sends the invite; the request carries the flag
  together with the list \<open>[7]\<close>.
\<close>

theorem invite_sends_url_list_under_allow_all:
  "InviteMember ''acme''
     \<lparr> firstname = ''Ann'', lastname = ''Lee'', InviteMemberDto.email = ''ann@acme.io'',
       InviteMemberDto.allowedAllUrls = True, InviteMemberDto.allowedUrls = [7],
       InviteMemberDto.roles = [ORGANIZATION_MEMBER] \<rparr>
     \<in> set (requests (run admin_env invite_trace (mounted admin_env)))"
  unfolding invite_trace_requests by simp

end
